theory Spec2Isabelle
  imports Main "HOL-Library.Word"
begin

section \<open>Private key PEM dispatch (tlsutils/common\_key.go)\<close>

text \<open>
  A shallow embedding of \<^verbatim>\<open>keyParsers\<close>, \<^verbatim>\<open>parsePrivateKeyPEM\<close> and
  \<^verbatim>\<open>privateKeyToAlgorithm\<close>. Go's multiple return values are tuples, a nil
  \<^verbatim>\<open>error\<close> is \<open>None\<close>, and the functions of Go's standard library that the
  file calls (\<^verbatim>\<open>pem.Decode\<close> and the three \<^verbatim>\<open>x509\<close> parsers) are
  parameters, collected in the record \<open>stdlib\<close>: every theorem holds for whatever
  these functions compute.
\<close>

subsection \<open>Data\<close>

type_synonym byte = "8 word"

text \<open>A Go pointer: nil, or the address of a value (aliasing plays no role here).\<close>

datatype 'a ptr = NilPtr | PtrTo 'a

text \<open>The key structures of \<^verbatim>\<open>crypto/rsa\<close>, \<^verbatim>\<open>crypto/ecdsa\<close> and \<^verbatim>\<open>crypto/ed25519\<close>.\<close>

record rsa_PrivateKey =
  rsa_N :: int
  rsa_E :: int
  rsa_D :: int
  rsa_Primes :: "int list"

record ecdsa_PrivateKey =
  ecdsa_Curve :: string
  ecdsa_X :: int
  ecdsa_Y :: int
  ecdsa_D :: int

type_synonym ed25519_PrivateKey = "byte list"

text \<open>
  \<^verbatim>\<open>crypto.PrivateKey\<close> is the empty interface: a value of any dynamic type, or the
  nil interface. The six dynamic types that the type switch of
  \<^verbatim>\<open>privateKeyToAlgorithm\<close> names are constructors of their own; a value of any
  other dynamic type is \<open>OtherType\<close>, carrying the name that \<^verbatim>\<open>%T\<close> prints.
\<close>

datatype crypto_PrivateKey =
    RSAPrivateKey rsa_PrivateKey                      \<comment> \<open>\<^verbatim>\<open>rsa.PrivateKey\<close>\<close>
  | RSAPrivateKeyPtr "rsa_PrivateKey ptr"              \<comment> \<open>\<^verbatim>\<open>*rsa.PrivateKey\<close>\<close>
  | ECDSAPrivateKey ecdsa_PrivateKey                  \<comment> \<open>\<^verbatim>\<open>ecdsa.PrivateKey\<close>\<close>
  | ECDSAPrivateKeyPtr "ecdsa_PrivateKey ptr"          \<comment> \<open>\<^verbatim>\<open>*ecdsa.PrivateKey\<close>\<close>
  | Ed25519PrivateKey ed25519_PrivateKey              \<comment> \<open>\<^verbatim>\<open>ed25519.PrivateKey\<close>\<close>
  | Ed25519PrivateKeyPtr "ed25519_PrivateKey ptr"      \<comment> \<open>\<^verbatim>\<open>*ed25519.PrivateKey\<close>\<close>
  | OtherType string                                  \<comment> \<open>any other dynamic type\<close>
  | NilInterface                                      \<comment> \<open>\<^verbatim>\<open>nil\<close>\<close>

text \<open>What \<^verbatim>\<open>%T\<close> prints for a key.\<close>

fun typeName :: "crypto_PrivateKey \<Rightarrow> string" where
  "typeName (RSAPrivateKey _) = ''rsa.PrivateKey''"
| "typeName (RSAPrivateKeyPtr _) = ''*rsa.PrivateKey''"
| "typeName (ECDSAPrivateKey _) = ''ecdsa.PrivateKey''"
| "typeName (ECDSAPrivateKeyPtr _) = ''*ecdsa.PrivateKey''"
| "typeName (Ed25519PrivateKey _) = ''ed25519.PrivateKey''"
| "typeName (Ed25519PrivateKeyPtr _) = ''*ed25519.PrivateKey''"
| "typeName (OtherType n) = n"
| "typeName NilInterface = ''<nil>''"

text \<open>
  Modelled from the spec: the declaration of \<^verbatim>\<open>Algorithm\<close> and of its constants
  \<^verbatim>\<open>RSA\<close>, \<^verbatim>\<open>ECDSA\<close>, \<^verbatim>\<open>ED25519\<close> is not in the source file. The source
  returns \<^verbatim>\<open>""\<close> as an \<^verbatim>\<open>Algorithm\<close>, so the type is a string type; the spec
  gives its values as the set RSA, ECDSA, ED25519.
\<close>

type_synonym Algorithm = string

definition RSA :: Algorithm where
  "RSA = ''RSA''"

definition ECDSA :: Algorithm where
  "ECDSA = ''ECDSA''"

definition ED25519 :: Algorithm where
  "ED25519 = ''ED25519''"

text \<open>
  Modelled from the spec: the declaration of \<^verbatim>\<open>PEMPreamble\<close> is not in the source
  file. The spec gives it as an enumeration over the closed set RSA-private-key,
  EC-private-key, PKCS8-generic-private-key; the names are those the source uses.
\<close>

datatype PEMPreamble =
    PreamblePrivateKeyRSA
  | PreamblePrivateKeyEC
  | PreamblePrivateKeyPKCS8

text \<open>
  The errors. Each \<^verbatim>\<open>fmt.Errorf\<close> of the source is a constructor that carries the
  arguments of its format string; an error wrapped with \<^verbatim>\<open>%w\<close> is carried whole.
\<close>

datatype error =
    MalformedPEM int int
      \<comment> \<open>\<^verbatim>\<open>failed to decode PEM block: decoded bytes %d, undecoded %d\<close>\<close>
  | UnrecognizedPreamble string
      \<comment> \<open>the Preamble Classifier's error, with the offending label\<close>
  | NoParserForPreamble PEMPreamble
      \<comment> \<open>\<^verbatim>\<open>unable to determine parser for PEM preamble: %s\<close>\<close>
  | KeyDecodeFailed PEMPreamble error
      \<comment> \<open>\<^verbatim>\<open>failed to parse private key given PEM preamble '%s': %w\<close>\<close>
  | AlgorithmUndetermined string error
      \<comment> \<open>\<^verbatim>\<open>failed to determine key algorithm for private key of type %T: %w\<close>\<close>
  | UnsupportedKeyType string
      \<comment> \<open>\<^verbatim>\<open>unsupported private key type: %T\<close>\<close>
  | X509Error string
      \<comment> \<open>a diagnostic of one of the \<^verbatim>\<open>x509\<close> parsers\<close>

text \<open>\<^verbatim>\<open>pem.Block\<close>.\<close>

record pem_Block =
  Type :: string
  Headers :: "string \<rightharpoonup> string"
  Bytes :: "byte list"

text \<open>
  The standard library functions the file calls, with their Go signatures:
  \<^verbatim>\<open>pem.Decode\<close> returns a block pointer (nil when no block is found) and the rest
  of the input; each parser returns a key and an error.
\<close>

record stdlib =
  pem_Decode :: "byte list \<Rightarrow> pem_Block option \<times> byte list"
  x509_ParsePKCS1PrivateKey :: "byte list \<Rightarrow> rsa_PrivateKey ptr \<times> error option"
  x509_ParseECPrivateKey :: "byte list \<Rightarrow> ecdsa_PrivateKey ptr \<times> error option"
  x509_ParsePKCS8PrivateKey :: "byte list \<Rightarrow> crypto_PrivateKey \<times> error option"

subsection \<open>The Preamble Classifier\<close>

text \<open>
  Modelled from the spec: \<^verbatim>\<open>pemBlockToPEMPreamble\<close> is called by the source file
  and defined outside it. The spec's contract: an exact, case-sensitive lookup of the
  block's label, \<^verbatim>\<open>RSA PRIVATE KEY\<close>, \<^verbatim>\<open>EC PRIVATE KEY\<close> or \<^verbatim>\<open>PRIVATE KEY\<close>;
  any other label fails with \<open>UnrecognizedPreamble\<close>, carrying the label.
\<close>

definition pemBlockToPEMPreamble :: "pem_Block \<Rightarrow> error + PEMPreamble" where
  "pemBlockToPEMPreamble block =
     (if Type block = ''RSA PRIVATE KEY'' then Inr PreamblePrivateKeyRSA
      else if Type block = ''EC PRIVATE KEY'' then Inr PreamblePrivateKeyEC
      else if Type block = ''PRIVATE KEY'' then Inr PreamblePrivateKeyPKCS8
      else Inl (UnrecognizedPreamble (Type block)))"

subsection \<open>The Key Decode Dispatcher\<close>

type_synonym keyParser = "byte list \<Rightarrow> crypto_PrivateKey \<times> error option"

text \<open>
  \<^verbatim>\<open>keyParsers\<close>: a Go map with three entries. Each entry returns the result of
  its parser as a \<^verbatim>\<open>crypto.PrivateKey\<close>: the pointer that the RSA and EC parsers
  return is stored in the interface under its pointer type, also when it is nil.
\<close>

definition keyParsers :: "stdlib \<Rightarrow> PEMPreamble \<rightharpoonup> keyParser" where
  "keyParsers L =
     [PreamblePrivateKeyRSA \<mapsto>
        (\<lambda>der. case x509_ParsePKCS1PrivateKey L der of (k, err) \<Rightarrow> (RSAPrivateKeyPtr k, err)),
      PreamblePrivateKeyEC \<mapsto>
        (\<lambda>der. case x509_ParseECPrivateKey L der of (k, err) \<Rightarrow> (ECDSAPrivateKeyPtr k, err)),
      PreamblePrivateKeyPKCS8 \<mapsto>
        (\<lambda>der. x509_ParsePKCS8PrivateKey L der)]"

text \<open>\<^verbatim>\<open>privateKeyToAlgorithm\<close>: the type switch, in the order of the source.\<close>

fun privateKeyToAlgorithm :: "crypto_PrivateKey \<Rightarrow> Algorithm \<times> error option" where
  "privateKeyToAlgorithm (RSAPrivateKey k) = (RSA, None)"
| "privateKeyToAlgorithm (RSAPrivateKeyPtr p) = (RSA, None)"
| "privateKeyToAlgorithm (ECDSAPrivateKey k) = (ECDSA, None)"
| "privateKeyToAlgorithm (ECDSAPrivateKeyPtr p) = (ECDSA, None)"
| "privateKeyToAlgorithm (Ed25519PrivateKey k) = (ED25519, None)"
| "privateKeyToAlgorithm (Ed25519PrivateKeyPtr p) = (ED25519, None)"
| "privateKeyToAlgorithm prvKey = ('''', Some (UnsupportedKeyType (typeName prvKey)))"

text \<open>
  \<^verbatim>\<open>parsePrivateKeyPEM\<close>: one branch for each return statement of the source, in
  its order. Go's \<^verbatim>\<open>int\<close> is 64 bits wide and both lengths are lengths of
  slices, so the subtraction does not wrap.
\<close>

definition parsePrivateKeyPEM ::
  "stdlib \<Rightarrow> byte list \<Rightarrow> crypto_PrivateKey \<times> Algorithm \<times> error option" where
  "parsePrivateKeyPEM L keyPEMBytes =
     (case pem_Decode L keyPEMBytes of
        (None, rest) \<Rightarrow>
          (NilInterface, '''',
           Some (MalformedPEM (int (length keyPEMBytes) - int (length rest)) (int (length rest))))
      | (Some pemBlock, rest) \<Rightarrow>
          (case pemBlockToPEMPreamble pemBlock of
             Inl err \<Rightarrow> (NilInterface, '''', Some err)
           | Inr preamble \<Rightarrow>
               (case keyParsers L preamble of
                  None \<Rightarrow> (NilInterface, '''', Some (NoParserForPreamble preamble))
                | Some parser \<Rightarrow>
                    (case parser (Bytes pemBlock) of
                       (prvKey, Some err) \<Rightarrow>
                         (NilInterface, '''', Some (KeyDecodeFailed preamble err))
                     | (prvKey, None) \<Rightarrow>
                         (case privateKeyToAlgorithm prvKey of
                            (algorithm, Some err) \<Rightarrow>
                              (NilInterface, '''',
                               Some (AlgorithmUndetermined (typeName prvKey) err))
                          | (algorithm, None) \<Rightarrow> (prvKey, algorithm, None))))))"

subsection \<open>The shape of a key\<close>

text \<open>
  The three key variants, each in its value and its pointer form, as the cases of the
  type switch group them.
\<close>

definition is_rsa :: "crypto_PrivateKey \<Rightarrow> bool" where
  "is_rsa k = (case k of RSAPrivateKey _ \<Rightarrow> True | RSAPrivateKeyPtr _ \<Rightarrow> True | _ \<Rightarrow> False)"

definition is_ecdsa :: "crypto_PrivateKey \<Rightarrow> bool" where
  "is_ecdsa k = (case k of ECDSAPrivateKey _ \<Rightarrow> True | ECDSAPrivateKeyPtr _ \<Rightarrow> True | _ \<Rightarrow> False)"

definition is_ed25519 :: "crypto_PrivateKey \<Rightarrow> bool" where
  "is_ed25519 k =
     (case k of Ed25519PrivateKey _ \<Rightarrow> True | Ed25519PrivateKeyPtr _ \<Rightarrow> True | _ \<Rightarrow> False)"

subsection \<open>A sample standard library\<close>

text \<open>
  A small instance of \<open>stdlib\<close> on which the theorems below are run: its decoder
  finds a block with the given label when the input starts with the byte \<open>0x2D\<close>
  (a dash) and returns the input after that byte as the rest, and otherwise finds no
  block and returns the whole input; its RSA and EC parsers reject every payload; its
  PKCS#8 parser returns the given result.
\<close>

definition sample_block :: "string \<Rightarrow> pem_Block" where
  "sample_block label = \<lparr>Type = label, Headers = Map.empty, Bytes = [0x30, 0x2E]\<rparr>"

definition sample_stdlib :: "string \<Rightarrow> crypto_PrivateKey \<times> error option \<Rightarrow> stdlib" where
  "sample_stdlib label pkcs8 =
     \<lparr>pem_Decode =
        (\<lambda>data. case data of
                  [] \<Rightarrow> (None, data)
                | c # rest \<Rightarrow>
                    if c = 0x2D then (Some (sample_block label), rest) else (None, data)),
      x509_ParsePKCS1PrivateKey =
        (\<lambda>der. (NilPtr, Some (X509Error ''x509: failed to parse private key''))),
      x509_ParseECPrivateKey =
        (\<lambda>der. (NilPtr, Some (X509Error ''x509: failed to parse EC private key''))),
      x509_ParsePKCS8PrivateKey = (\<lambda>der. pkcs8)\<rparr>"

section \<open>Properties\<close>

subsection \<open>Auxiliary facts\<close>

lemma Algorithm_distinct:
  "RSA \<noteq> ECDSA" "RSA \<noteq> ED25519" "ECDSA \<noteq> ED25519"
  "ECDSA \<noteq> RSA" "ED25519 \<noteq> RSA" "ED25519 \<noteq> ECDSA"
  "RSA \<noteq> []" "ECDSA \<noteq> []" "ED25519 \<noteq> []"
  by (simp_all add: RSA_def ECDSA_def ED25519_def)

lemma privateKeyToAlgorithm_ok:
  "privateKeyToAlgorithm k = (a, None) \<Longrightarrow>
     (a = RSA) = is_rsa k \<and> (a = ECDSA) = is_ecdsa k \<and> (a = ED25519) = is_ed25519 k"
  by (cases k) (auto simp: is_rsa_def is_ecdsa_def is_ed25519_def Algorithm_distinct)

lemma privateKeyToAlgorithm_cases:
  "privateKeyToAlgorithm k = (RSA, None) \<and> is_rsa k \<or>
   privateKeyToAlgorithm k = (ECDSA, None) \<and> is_ecdsa k \<or>
   privateKeyToAlgorithm k = (ED25519, None) \<and> is_ed25519 k \<or>
   privateKeyToAlgorithm k = ('''', Some (UnsupportedKeyType (typeName k)))
     \<and> \<not> is_rsa k \<and> \<not> is_ecdsa k \<and> \<not> is_ed25519 k"
  by (cases k) (simp_all add: is_rsa_def is_ecdsa_def is_ed25519_def)

text \<open>A successful call went through every stage of the pipeline.\<close>

lemma parsePrivateKeyPEM_success:
  "parsePrivateKeyPEM L raw = (k, a, None) \<Longrightarrow>
     \<exists>b rest p parser. pem_Decode L raw = (Some b, rest) \<and> pemBlockToPEMPreamble b = Inr p \<and>
        keyParsers L p = Some parser \<and> parser (Bytes b) = (k, None) \<and>
        privateKeyToAlgorithm k = (a, None)"
  unfolding parsePrivateKeyPEM_def
  by (auto split: prod.splits option.splits sum.splits)

text \<open>Once the parser has accepted the payload, the classification decides the result.\<close>

lemma parsePrivateKeyPEM_parsed:
  "pem_Decode L raw = (Some b, rest) \<Longrightarrow> pemBlockToPEMPreamble b = Inr p \<Longrightarrow>
   keyParsers L p = Some parser \<Longrightarrow> parser (Bytes b) = (k, None) \<Longrightarrow>
   parsePrivateKeyPEM L raw =
     (case privateKeyToAlgorithm k of
        (a, Some err) \<Rightarrow> (NilInterface, '''', Some (AlgorithmUndetermined (typeName k) err))
      | (a, None) \<Rightarrow> (k, a, None))"
  by (simp add: parsePrivateKeyPEM_def)

lemma keyParsers_total: "keyParsers L p \<noteq> None"
  by (cases p) (simp_all add: keyParsers_def)


lemma classify_RSA:
  "Type b = ''RSA PRIVATE KEY'' \<Longrightarrow> pemBlockToPEMPreamble b = Inr PreamblePrivateKeyRSA"
  by (simp add: pemBlockToPEMPreamble_def)

lemma classify_error:
  "pemBlockToPEMPreamble b = Inl e \<Longrightarrow> e = UnrecognizedPreamble (Type b)"
  by (simp add: pemBlockToPEMPreamble_def split: if_splits)

subsection \<open>Consistency of key and algorithm\<close>

text \<open>
  C1. Whenever \<open>parsePrivateKeyPEM\<close> succeeds (returns a nil error), the returned
  algorithm names the variant of the returned key: it is RSA exactly when the key is an
  \<^verbatim>\<open>rsa.PrivateKey\<close> (value or pointer), ECDSA exactly when it is an
  \<^verbatim>\<open>ecdsa.PrivateKey\<close> (value or pointer), and ED25519 exactly when it is an
  \<^verbatim>\<open>ed25519.PrivateKey\<close> (value or pointer). This holds for every standard
  library and every input.
\<close>

theorem parsePrivateKeyPEM_consistent:
  "parsePrivateKeyPEM L raw = (k, a, None) \<Longrightarrow>
     (a = RSA) = is_rsa k \<and> (a = ECDSA) = is_ecdsa k \<and> (a = ED25519) = is_ed25519 k"
  using parsePrivateKeyPEM_success privateKeyToAlgorithm_ok by blast

text \<open>The theorem at a PKCS#8 envelope that wraps an RSA key.\<close>

theorem parsePrivateKeyPEM_consistent_witness:
  "parsePrivateKeyPEM
     (sample_stdlib ''PRIVATE KEY''
        (RSAPrivateKeyPtr
           (PtrTo \<lparr>rsa_N = 3233, rsa_E = 17, rsa_D = 2753, rsa_Primes = [61, 53]\<rparr>), None))
     [0x2D, 0x0A]
   = (RSAPrivateKeyPtr
        (PtrTo \<lparr>rsa_N = 3233, rsa_E = 17, rsa_D = 2753, rsa_Primes = [61, 53]\<rparr>), RSA, None)
   \<and> is_rsa (RSAPrivateKeyPtr
        (PtrTo \<lparr>rsa_N = 3233, rsa_E = 17, rsa_D = 2753, rsa_Primes = [61, 53]\<rparr>))
   \<and> \<not> is_ecdsa (RSAPrivateKeyPtr
        (PtrTo \<lparr>rsa_N = 3233, rsa_E = 17, rsa_D = 2753, rsa_Primes = [61, 53]\<rparr>))
   \<and> \<not> is_ed25519 (RSAPrivateKeyPtr
        (PtrTo \<lparr>rsa_N = 3233, rsa_E = 17, rsa_D = 2753, rsa_Primes = [61, 53]\<rparr>))"
proof -
  let ?k = "RSAPrivateKeyPtr
    (PtrTo \<lparr>rsa_N = 3233, rsa_E = 17, rsa_D = 2753, rsa_Primes = [61, 53]\<rparr>)"
  have run: "parsePrivateKeyPEM (sample_stdlib ''PRIVATE KEY'' (?k, None)) [0x2D, 0x0A]
      = (?k, RSA, None)"
    by (simp add: parsePrivateKeyPEM_def sample_stdlib_def sample_block_def
        pemBlockToPEMPreamble_def keyParsers_def)
  from parsePrivateKeyPEM_consistent [OF run] run Algorithm_distinct
  show ?thesis by simp
qed

subsection \<open>Classification by the shape of the key\<close>



subsection \<open>Failures of the pipeline\<close>

text \<open>
  C3. When the label of the decoded block selects a parser and that parser rejects the
  payload, \<open>parsePrivateKeyPEM\<close> fails with \<open>KeyDecodeFailed\<close>, which carries the
  chosen preamble and the parser's own error. In particular a block labelled
  \<^verbatim>\<open>RSA PRIVATE KEY\<close> whose payload the PKCS#1 parser rejects (as it does a
  PKCS#8 encoded EC key) fails so, whatever the other parsers would make of the payload.
\<close>

theorem parsePrivateKeyPEM_KeyDecodeFailed:
  "pem_Decode L raw = (Some b, rest) \<Longrightarrow>
     (pemBlockToPEMPreamble b = Inr p \<and> keyParsers L p = Some parser \<and>
      parser (Bytes b) = (k, Some e) \<longrightarrow>
        parsePrivateKeyPEM L raw = (NilInterface, '''', Some (KeyDecodeFailed p e))) \<and>
     (Type b = ''RSA PRIVATE KEY'' \<and> x509_ParsePKCS1PrivateKey L (Bytes b) = (kp, Some e') \<longrightarrow>
        parsePrivateKeyPEM L raw =
          (NilInterface, '''', Some (KeyDecodeFailed PreamblePrivateKeyRSA e')))"
  by (simp add: parsePrivateKeyPEM_def classify_RSA keyParsers_def)

text \<open>
  The theorem at a block labelled \<^verbatim>\<open>RSA PRIVATE KEY\<close> whose payload the PKCS#8
  parser would accept as an EC key.
\<close>

theorem parsePrivateKeyPEM_KeyDecodeFailed_witness:
  "parsePrivateKeyPEM
     (sample_stdlib ''RSA PRIVATE KEY''
        (ECDSAPrivateKeyPtr
           (PtrTo \<lparr>ecdsa_Curve = ''P-256'', ecdsa_X = 5, ecdsa_Y = 7, ecdsa_D = 11\<rparr>), None))
     [0x2D, 0x0A]
   = (NilInterface, '''',
      Some (KeyDecodeFailed PreamblePrivateKeyRSA
              (X509Error ''x509: failed to parse private key'')))"
proof -
  let ?L = "sample_stdlib ''RSA PRIVATE KEY''
    (ECDSAPrivateKeyPtr
       (PtrTo \<lparr>ecdsa_Curve = ''P-256'', ecdsa_X = 5, ecdsa_Y = 7, ecdsa_D = 11\<rparr>), None)"
  let ?b = "sample_block ''RSA PRIVATE KEY''"
  let ?e = "X509Error ''x509: failed to parse private key''"
  let ?parser =
    "\<lambda>der. case x509_ParsePKCS1PrivateKey ?L der of (k, err) \<Rightarrow> (RSAPrivateKeyPtr k, err)"
  have dec: "pem_Decode ?L [0x2D, 0x0A] = (Some ?b, [0x0A])"
    by (simp add: sample_stdlib_def)
  have cls: "pemBlockToPEMPreamble ?b = Inr PreamblePrivateKeyRSA"
    by (simp add: pemBlockToPEMPreamble_def sample_block_def)
  have reg: "keyParsers ?L PreamblePrivateKeyRSA = Some ?parser"
    by (simp add: keyParsers_def)
  have rej: "?parser (Bytes ?b) = (RSAPrivateKeyPtr NilPtr, Some ?e)"
    by (simp add: sample_stdlib_def)
  have lab: "Type ?b = ''RSA PRIVATE KEY''"
    by (simp add: sample_block_def)
  have rej1: "x509_ParsePKCS1PrivateKey ?L (Bytes ?b) = (NilPtr, Some ?e)"
    by (simp add: sample_stdlib_def)
  from parsePrivateKeyPEM_KeyDecodeFailed
    [OF dec, of PreamblePrivateKeyRSA ?parser "RSAPrivateKeyPtr NilPtr" ?e NilPtr ?e]
    cls reg rej lab rej1
  show ?thesis by blast
qed

text \<open>
  C4. When the decoded block has a label other than \<^verbatim>\<open>RSA PRIVATE KEY\<close>,
  \<^verbatim>\<open>EC PRIVATE KEY\<close> and \<^verbatim>\<open>PRIVATE KEY\<close>, the classifier fails with
  \<open>UnrecognizedPreamble\<close> carrying exactly that label, and \<open>parsePrivateKeyPEM\<close>
  returns that error unchanged, with no key and the empty algorithm.
\<close>

theorem parsePrivateKeyPEM_UnrecognizedPreamble:
  "pem_Decode L raw = (Some b, rest) \<Longrightarrow>
   Type b \<notin> {''RSA PRIVATE KEY'', ''EC PRIVATE KEY'', ''PRIVATE KEY''} \<Longrightarrow>
     pemBlockToPEMPreamble b = Inl (UnrecognizedPreamble (Type b)) \<and>
     parsePrivateKeyPEM L raw = (NilInterface, '''', Some (UnrecognizedPreamble (Type b)))"
  by (simp add: parsePrivateKeyPEM_def pemBlockToPEMPreamble_def)

theorem parsePrivateKeyPEM_UnrecognizedPreamble_witness:
  "parsePrivateKeyPEM (sample_stdlib ''CERTIFICATE'' (NilInterface, None)) [0x2D, 0x0A]
   = (NilInterface, '''', Some (UnrecognizedPreamble ''CERTIFICATE''))"
proof -
  let ?L = "sample_stdlib ''CERTIFICATE'' (NilInterface, None)"
  let ?b = "sample_block ''CERTIFICATE''"
  have dec: "pem_Decode ?L [0x2D, 0x0A] = (Some ?b, [0x0A])"
    by (simp add: sample_stdlib_def)
  have lab: "Type ?b \<notin> {''RSA PRIVATE KEY'', ''EC PRIVATE KEY'', ''PRIVATE KEY''}"
    by (simp add: sample_block_def)
  have "Type ?b = ''CERTIFICATE''"
    by (simp add: sample_block_def)
  with parsePrivateKeyPEM_UnrecognizedPreamble [OF dec lab] show ?thesis by simp
qed

text \<open>
  C5. When \<^verbatim>\<open>pem.Decode\<close> finds no block, \<open>parsePrivateKeyPEM\<close> fails with
  \<open>MalformedPEM\<close>, which carries the number of bytes consumed (the length of the input
  less the length of the rest) and the number left over, and returns no key.
\<close>

theorem parsePrivateKeyPEM_MalformedPEM:
  "pem_Decode L raw = (None, rest) \<Longrightarrow>
     parsePrivateKeyPEM L raw =
       (NilInterface, '''',
        Some (MalformedPEM (int (length raw) - int (length rest)) (int (length rest))))"
  by (simp add: parsePrivateKeyPEM_def)

theorem parsePrivateKeyPEM_MalformedPEM_witness:
  "parsePrivateKeyPEM (sample_stdlib ''PRIVATE KEY'' (NilInterface, None)) [0x68, 0x69, 0x0A]
   = (NilInterface, '''', Some (MalformedPEM 0 3))"
proof -
  let ?L = "sample_stdlib ''PRIVATE KEY'' (NilInterface, None)"
  have dec: "pem_Decode ?L [0x68, 0x69, 0x0A] = (None, [0x68, 0x69, 0x0A])"
    by (simp add: sample_stdlib_def)
  from parsePrivateKeyPEM_MalformedPEM [OF dec] show ?thesis by simp
qed

text \<open>
  C9. When the selected parser accepts the payload and returns a key that is none of
  the three variants (in neither form), the classification fails with
  \<open>UnsupportedKeyType\<close> carrying the name of the key's dynamic type, and
  \<open>parsePrivateKeyPEM\<close> returns that error, wrapped together with the same type name,
  with no key and with the empty algorithm, which is none of RSA, ECDSA and ED25519.
\<close>

theorem parsePrivateKeyPEM_UnsupportedKeyType:
  "pem_Decode L raw = (Some b, rest) \<Longrightarrow> pemBlockToPEMPreamble b = Inr p \<Longrightarrow>
   keyParsers L p = Some parser \<Longrightarrow> parser (Bytes b) = (k, None) \<Longrightarrow>
   \<not> is_rsa k \<Longrightarrow> \<not> is_ecdsa k \<Longrightarrow> \<not> is_ed25519 k \<Longrightarrow>
     privateKeyToAlgorithm k = ('''', Some (UnsupportedKeyType (typeName k))) \<and>
     parsePrivateKeyPEM L raw =
       (NilInterface, '''',
        Some (AlgorithmUndetermined (typeName k) (UnsupportedKeyType (typeName k)))) \<and>
     '''' \<notin> {RSA, ECDSA, ED25519}"
proof -
  assume dec: "pem_Decode L raw = (Some b, rest)" and cls: "pemBlockToPEMPreamble b = Inr p"
    and reg: "keyParsers L p = Some parser" and prs: "parser (Bytes b) = (k, None)"
    and shape: "\<not> is_rsa k" "\<not> is_ecdsa k" "\<not> is_ed25519 k"
  from shape privateKeyToAlgorithm_cases [of k]
  have alg: "privateKeyToAlgorithm k = ('''', Some (UnsupportedKeyType (typeName k)))"
    by blast
  from parsePrivateKeyPEM_parsed [OF dec cls reg prs] alg Algorithm_distinct
  show ?thesis by auto
qed

text \<open>The theorem at a PKCS#8 envelope whose parser returns a key of another type.\<close>

theorem parsePrivateKeyPEM_UnsupportedKeyType_witness:
  "parsePrivateKeyPEM (sample_stdlib ''PRIVATE KEY'' (OtherType ''*ecdh.PrivateKey'', None))
     [0x2D, 0x0A]
   = (NilInterface, '''',
      Some (AlgorithmUndetermined ''*ecdh.PrivateKey''
              (UnsupportedKeyType ''*ecdh.PrivateKey'')))"
proof -
  let ?k = "OtherType ''*ecdh.PrivateKey''"
  let ?L = "sample_stdlib ''PRIVATE KEY'' (?k, None)"
  let ?b = "sample_block ''PRIVATE KEY''"
  let ?parser = "\<lambda>der. x509_ParsePKCS8PrivateKey ?L der"
  have dec: "pem_Decode ?L [0x2D, 0x0A] = (Some ?b, [0x0A])"
    by (simp add: sample_stdlib_def)
  have cls: "pemBlockToPEMPreamble ?b = Inr PreamblePrivateKeyPKCS8"
    by (simp add: pemBlockToPEMPreamble_def sample_block_def)
  have reg: "keyParsers ?L PreamblePrivateKeyPKCS8 = Some ?parser"
    by (simp add: keyParsers_def)
  have prs: "?parser (Bytes ?b) = (?k, None)"
    by (simp add: sample_stdlib_def)
  have s1: "\<not> is_rsa ?k" by (simp add: is_rsa_def)
  have s2: "\<not> is_ecdsa ?k" by (simp add: is_ecdsa_def)
  have s3: "\<not> is_ed25519 ?k" by (simp add: is_ed25519_def)
  from parsePrivateKeyPEM_UnsupportedKeyType [OF dec cls reg prs s1 s2 s3]
  show ?thesis by simp
qed

subsection \<open>Trailing bytes\<close>



subsection \<open>Value and pointer forms\<close>

text \<open>
  C7. The classification treats the owned value and a pointer to it alike: for every
  \<^verbatim>\<open>rsa.PrivateKey\<close> value both forms give RSA with no error, and for every
  \<^verbatim>\<open>ecdsa.PrivateKey\<close> value both forms give ECDSA with no error.
\<close>

theorem privateKeyToAlgorithm_value_pointer:
  "privateKeyToAlgorithm (RSAPrivateKey v) = (RSA, None) \<and>
   privateKeyToAlgorithm (RSAPrivateKeyPtr (PtrTo v)) = (RSA, None) \<and>
   privateKeyToAlgorithm (ECDSAPrivateKey w) = (ECDSA, None) \<and>
   privateKeyToAlgorithm (ECDSAPrivateKeyPtr (PtrTo w)) = (ECDSA, None)"
  by simp

subsection \<open>The registry covers the preambles\<close>

text \<open>
  C8. The lookup in \<open>keyParsers\<close> succeeds for every preamble: the registry is
  defined on exactly the three preambles. Hence \<open>parsePrivateKeyPEM\<close> never returns
  the error of its "unable to determine parser" branch.
\<close>

theorem keyParsers_lookup_succeeds:
  "keyParsers L p \<noteq> None \<and>
   dom (keyParsers L) = {PreamblePrivateKeyRSA, PreamblePrivateKeyEC, PreamblePrivateKeyPKCS8} \<and>
   snd (snd (parsePrivateKeyPEM L raw)) \<noteq> Some (NoParserForPreamble q)"
proof -
  have reach: "snd (snd (parsePrivateKeyPEM L raw)) \<noteq> Some (NoParserForPreamble q)"
    by (auto simp: parsePrivateKeyPEM_def keyParsers_total
        split: prod.splits option.splits sum.splits dest: classify_error)
  have "dom (keyParsers L) = {PreamblePrivateKeyRSA, PreamblePrivateKeyEC, PreamblePrivateKeyPKCS8}"
    by (auto simp: keyParsers_def)
  with reach keyParsers_total [of L p] show ?thesis by simp
qed

subsection \<open>All or nothing\<close>

text \<open>
  C10. Every call of \<open>parsePrivateKeyPEM\<close> ends in one of two ways. Either it fails:
  the error is not nil, the key is the nil interface and the algorithm is the empty
  string, which is none of RSA, ECDSA and ED25519. Or it succeeds: the error is nil,
  the key is not the nil interface and the algorithm is one of RSA, ECDSA and ED25519.
\<close>

theorem parsePrivateKeyPEM_all_or_nothing:
  "(case parsePrivateKeyPEM L raw of
      (k, a, err) \<Rightarrow>
        (err \<noteq> None \<and> k = NilInterface \<and> a = '''' \<and> a \<notin> {RSA, ECDSA, ED25519}) \<or>
        (err = None \<and> k \<noteq> NilInterface \<and> a \<in> {RSA, ECDSA, ED25519}))"
proof (cases "pem_Decode L raw")
  case (Pair blk rest)
  show ?thesis
  proof (cases blk)
    case None
    with Pair show ?thesis
      by (simp add: parsePrivateKeyPEM_def Algorithm_distinct [symmetric])
  next
    case (Some b)
    show ?thesis
    proof (cases "pemBlockToPEMPreamble b")
      case (Inl e)
      with Pair Some show ?thesis
        by (simp add: parsePrivateKeyPEM_def Algorithm_distinct [symmetric])
    next
      case (Inr p)
      obtain parser where reg: "keyParsers L p = Some parser"
        using keyParsers_total [of L p] by blast
      obtain k e where prs: "parser (Bytes b) = (k, e)"
        by (cases "parser (Bytes b)")
      show ?thesis
      proof (cases e)
        case (Some err)
        with Pair \<open>blk = Some b\<close> Inr reg prs show ?thesis
          by (simp add: parsePrivateKeyPEM_def Algorithm_distinct [symmetric])
      next
        case None
        with Pair \<open>blk = Some b\<close> Inr reg prs
        have "parsePrivateKeyPEM L raw =
          (case privateKeyToAlgorithm k of
             (a, Some err) \<Rightarrow> (NilInterface, '''', Some (AlgorithmUndetermined (typeName k) err))
           | (a, None) \<Rightarrow> (k, a, None))"
          by (simp add: parsePrivateKeyPEM_parsed)
        then show ?thesis
          by (cases k) (simp_all add: Algorithm_distinct [symmetric])
      qed
    qed
  qed
qed

end
